theory Spec2Isabelle
  imports Main
begin

section \<open>Shared data: exceptions, arrays, paths\<close>

text \<open>
  Python exceptions that the modelled code can raise. \<open>IC4Exception\<close> is the
  exception of the TIS SDK, \<open>TypeError\<close> is what comparing \<open>None\<close> with an
  integer raises, \<open>ValueError\<close> is raised by the device registry,
  \<open>ZeroDivisionError\<close> by a floor division by zero, \<open>UnboundLocalError\<close> by
  reading a local variable that was never assigned, \<open>ImportError\<close> by importing a
  module whose SDK is not installed, \<open>OSError\<close> by the file system.
\<close>

datatype exn = IC4Exception | TypeError | ValueError | ZeroDivisionError
  | UnboundLocalError | ImportError | OSError

text \<open>The outcome of a call: it returns a value or raises.\<close>

datatype 'a res = Ret 'a | Raise exn

text \<open>
  A NumPy array: its shape and its samples in row-major order. Samples are modelled
  as integers (the mock camera only writes 0.0 and 1.0, the TIS camera delivers
  unsigned 8- or 16-bit samples).
\<close>

record ndarray =
  arr_shape :: "nat list"
  arr_data :: "int list"

text \<open>A \<open>pathlib.Path\<close> as the list of its components; \<open>p / s\<close> appends one.\<close>

type_synonym path = "string list"

definition path_div :: "path \<Rightarrow> string \<Rightarrow> path" where
  "path_div p s = p @ [s]"

text \<open>
  The display frame. The mock camera returns the raw array itself; the TIS camera
  returns \<open>frame.astype(float32) / dynamic_range\<close>, averaged over the last axis and
  demosaiced on request: that floating-point image is kept symbolically, as the raw
  frame, the divisor and the demosaic flag it is computed from.
\<close>

datatype view = RawView ndarray | NormalizedView ndarray int bool

section \<open>mock_interface.py: MockCamera\<close>

record MockCamera =
  mock_shape :: "nat list"
  mock_exposure :: int
  mock_exposure_max :: int
  mock_exposure_min :: int
  mock_bit_depth_field :: int
  mock_counter :: int
  mock_toggle_view_field :: int
  mock_save_folder_field :: path
  mock_subfolder :: "string option"

text \<open>
  \<open>MockCamera.__init__\<close>; \<open>data_path\<close> is the result of \<open>load_data_path()\<close>
  (module \<open>camera_visualizer.paths\<close>), taken as a parameter.
\<close>

definition MockCamera_init :: "path \<Rightarrow> MockCamera" where
  "MockCamera_init data_path =
     \<lparr> mock_shape = [480, 640],
       mock_exposure = 10000,
       mock_exposure_max = 500000,
       mock_exposure_min = 100,
       mock_bit_depth_field = 8,
       mock_counter = 0,
       mock_toggle_view_field = 0,
       mock_save_folder_field = path_div data_path ''mock'',
       mock_subfolder = None \<rparr>"

definition mock_toggle_bit_depth :: "MockCamera \<Rightarrow> MockCamera" where
  "mock_toggle_bit_depth c =
     c\<lparr>mock_bit_depth_field := (if mock_bit_depth_field c = 16 then 8 else 16)\<rparr>"

definition mock_toggle_view :: "MockCamera \<Rightarrow> MockCamera" where
  "mock_toggle_view c =
     c\<lparr>mock_toggle_view_field := (if mock_toggle_view_field c = 1 then 0 else 1)\<rparr>"

definition mock_bit_depth :: "MockCamera \<Rightarrow> int" where
  "mock_bit_depth c = mock_bit_depth_field c"

definition mock_exposure_range :: "MockCamera \<Rightarrow> int \<times> int \<times> int" where
  "mock_exposure_range c = (100, 500000, 20)"

text \<open>\<open>set_exposure\<close>: the returned flag and the camera afterwards.\<close>

definition mock_set_exposure :: "int \<Rightarrow> MockCamera \<Rightarrow> bool \<times> MockCamera" where
  "mock_set_exposure exposure c =
     (if exposure \<ge> mock_exposure_max c \<or> exposure \<le> mock_exposure_min c
      then (False, c)
      else (True, c\<lparr>mock_exposure := exposure\<rparr>))"

definition mock_init_exposure :: "int \<Rightarrow> MockCamera \<Rightarrow> MockCamera" where
  "mock_init_exposure max_exposure c =
     c\<lparr>mock_exposure_max := min max_exposure 500000, mock_exposure_min := 100\<rparr>"

definition mock_adjust_exposure :: "MockCamera \<Rightarrow> MockCamera" where
  "mock_adjust_exposure c =
     c\<lparr>mock_exposure := (mock_exposure_min c + mock_exposure_max c) div 2\<rparr>"

text \<open>\<open>check_exposure\<close> ignores its frame argument (which may be \<open>None\<close>).\<close>

definition mock_check_exposure :: "ndarray option \<Rightarrow> MockCamera \<Rightarrow> bool \<times> MockCamera" where
  "mock_check_exposure frame c =
     (let c1 = (if mock_exposure c > 10000
                then c\<lparr>mock_exposure_max := mock_exposure c - 1\<rparr>
                else c\<lparr>mock_exposure_min := mock_exposure c + 1\<rparr>)
      in if 8000 \<le> mock_exposure c1 \<and> mock_exposure c1 \<le> 12000
         then (True, c1\<lparr>mock_exposure_max := 500000, mock_exposure_min := 100\<rparr>)
         else (False, c1))"

text \<open>
  The image of \<open>get_frame\<close>: zeros of the camera's shape with a white bar of five
  columns starting at column \<open>counter % width\<close> (view 0) or of five rows starting at
  row \<open>counter % height\<close> (any other view); a slice that passes the border is cut.
\<close>

definition mock_image :: "MockCamera \<Rightarrow> ndarray" where
  "mock_image c =
     (let h = mock_shape c ! 0; w = mock_shape c ! 1 in
      if mock_toggle_view_field c = 0
      then (let x = nat (mock_counter c mod int w) in
            \<lparr> arr_shape = mock_shape c,
              arr_data = concat (replicate h
                (map (\<lambda>j. if x \<le> j \<and> j < x + 5 then 1 else 0) [0..<w])) \<rparr>)
      else (let y = nat (mock_counter c mod int h) in
            \<lparr> arr_shape = mock_shape c,
              arr_data = concat (map
                (\<lambda>i. replicate w (if y \<le> i \<and> i < y + 5 then 1 else 0)) [0..<h]) \<rparr>))"

definition mock_get_frame :: "MockCamera \<Rightarrow> (ndarray \<times> view) \<times> MockCamera" where
  "mock_get_frame c =
     (let img = mock_image c
      in ((img, RawView img), c\<lparr>mock_counter := mock_counter c + 1\<rparr>))"

definition mock_save_folder :: "MockCamera \<Rightarrow> path" where
  "mock_save_folder c =
     (case mock_subfolder c of
        None \<Rightarrow> mock_save_folder_field c
      | Some sub \<Rightarrow> path_div (mock_save_folder_field c) sub)"

text \<open>
  \<open>set_save_subfolder\<close> stores the name and then creates the directory; the
  directory creation acts on the file system only and is not part of the camera.
\<close>

definition mock_set_save_subfolder :: "string \<Rightarrow> MockCamera \<Rightarrow> MockCamera" where
  "mock_set_save_subfolder subfolder c = c\<lparr>mock_subfolder := Some subfolder\<rparr>"

text \<open>\<open>exception_type\<close> is \<open>Exception\<close>: every exception is an instance of it.\<close>

definition mock_exception_type :: "exn \<Rightarrow> bool" where
  "mock_exception_type e = True"

section \<open>tis_interface.py: TisCamera\<close>

definition TIS_HEIGHT :: nat where "TIS_HEIGHT = 480"
definition TIS_WIDTH :: nat where "TIS_WIDTH = 640"
definition TIS_MIN_EXPOSURE_MS :: int where "TIS_MIN_EXPOSURE_MS = 15"
definition TIS_MAX_EXPOSURE_MS :: int where "TIS_MAX_EXPOSURE_MS = 33333"
definition TIS_TIMEOUT_MS :: int where "TIS_TIMEOUT_MS = 10000"
definition TIS_EXPOSURE_INCREMENT :: int where "TIS_EXPOSURE_INCREMENT = 10"
definition TIS_DEFAULT_EXPOSURE_TIME_MS :: int where "TIS_DEFAULT_EXPOSURE_TIME_MS = 500"

text \<open>The pixel formats that are keys of the module's tables.\<close>

datatype PixelFormat = Mono8 | BayerGB8 | BayerGB16

definition TIS_DEFAULT_PIXEL_FORMAT :: PixelFormat where
  "TIS_DEFAULT_PIXEL_FORMAT = BayerGB16"

fun PIXEL_FORMAT_TO_BIT_DEPTH_MAP :: "PixelFormat \<Rightarrow> int" where
  "PIXEL_FORMAT_TO_BIT_DEPTH_MAP Mono8 = 8"
| "PIXEL_FORMAT_TO_BIT_DEPTH_MAP BayerGB8 = 8"
| "PIXEL_FORMAT_TO_BIT_DEPTH_MAP BayerGB16 = 16"

record TisCameraState =
  tis_save_folder :: path
  tis_current_exposure :: int
  tis_timeout_ms :: int
  tis_pixel_format :: PixelFormat
  tis_demosaic :: bool
  tis_save_subfolder :: "string option"
  tis_min_exposure :: int
  tis_max_exposure :: int

definition save_path :: "TisCameraState \<Rightarrow> path option" where
  "save_path st =
     (case tis_save_subfolder st of
        None \<Rightarrow> None
      | Some sub \<Rightarrow> Some (path_div (tis_save_folder st) sub))"

definition state_bit_depth :: "TisCameraState \<Rightarrow> int" where
  "state_bit_depth st = PIXEL_FORMAT_TO_BIT_DEPTH_MAP (tis_pixel_format st)"

definition dynamic_range :: "TisCameraState \<Rightarrow> int" where
  "dynamic_range st = 2 ^ nat (state_bit_depth st) - 1"

text \<open>
  The device behind the SDK objects (\<open>grabber\<close>, \<open>sink\<close>) of an opened camera:
  what the coming \<open>snap_single\<close> calls deliver (a buffer, or \<open>None\<close> for a
  timeout; an exhausted list is a device that delivers nothing more), which values
  the property map accepts for \<open>EXPOSURE_TIME\<close> (\<open>set_value\<close> raises on the
  others), and the value of that property.
\<close>

record ic4_device =
  dev_snaps :: "ndarray option list"
  dev_accepts :: "int \<Rightarrow> bool"
  dev_exposure_time :: int

record TisCamera =
  tis_state :: TisCameraState
  tis_grabber :: ic4_device

text \<open>\<open>TisCamera.__init__\<close>, with \<open>load_data_path()\<close> and the device as parameters.\<close>

definition TisCamera_init :: "path \<Rightarrow> ic4_device \<Rightarrow> TisCamera" where
  "TisCamera_init data_path dev =
     \<lparr> tis_state =
         \<lparr> tis_save_folder = path_div data_path ''tis'',
           tis_current_exposure = TIS_DEFAULT_EXPOSURE_TIME_MS,
           tis_timeout_ms = TIS_TIMEOUT_MS,
           tis_pixel_format = TIS_DEFAULT_PIXEL_FORMAT,
           tis_demosaic = False,
           tis_save_subfolder = None,
           tis_min_exposure = TIS_MIN_EXPOSURE_MS,
           tis_max_exposure = TIS_MAX_EXPOSURE_MS \<rparr>,
       tis_grabber = dev \<rparr>"

definition tis_bit_depth :: "TisCamera \<Rightarrow> int" where
  "tis_bit_depth c = state_bit_depth (tis_state c)"

definition tis_toggle_bit_depth :: "TisCamera \<Rightarrow> TisCamera" where
  "tis_toggle_bit_depth c = c"

definition tis_get_frame :: "TisCamera \<Rightarrow> (ndarray \<times> view) res \<times> TisCamera" where
  "tis_get_frame c =
     (case dev_snaps (tis_grabber c) of
        [] \<Rightarrow> (Raise IC4Exception, c)
      | None # rest \<Rightarrow>
          (Raise IC4Exception, c\<lparr>tis_grabber := (tis_grabber c)\<lparr>dev_snaps := rest\<rparr>\<rparr>)
      | Some frame # rest \<Rightarrow>
          (Ret (frame,
                NormalizedView frame (dynamic_range (tis_state c)) (tis_demosaic (tis_state c))),
           c\<lparr>tis_grabber := (tis_grabber c)\<lparr>dev_snaps := rest\<rparr>\<rparr>))"

text \<open>
  \<open>set_save_subfolder\<close> stores the name and then creates the directory, which
  acts on the file system only.
\<close>

definition tis_set_save_subfolder :: "string \<Rightarrow> TisCamera \<Rightarrow> TisCamera" where
  "tis_set_save_subfolder subfolder c =
     c\<lparr>tis_state := (tis_state c)\<lparr>tis_save_subfolder := Some subfolder\<rparr>\<rparr>"

definition tis_save_folder_meth :: "TisCamera \<Rightarrow> path option" where
  "tis_save_folder_meth c = save_path (tis_state c)"

text \<open>\<open>exception_type\<close> is \<open>ic4.IC4Exception\<close>.\<close>

definition tis_exception_type :: "exn \<Rightarrow> bool" where
  "tis_exception_type e = (e = IC4Exception)"

definition tis_exposure :: "TisCamera \<Rightarrow> int" where
  "tis_exposure c = tis_current_exposure (tis_state c) * 1000"

definition tis_exposure_range :: "TisCamera \<Rightarrow> int \<times> int \<times> int" where
  "tis_exposure_range c =
     (TIS_MIN_EXPOSURE_MS * 1000, TIS_MAX_EXPOSURE_MS * 1000, TIS_EXPOSURE_INCREMENT * 1000)"

definition tis_set_exposure :: "int \<Rightarrow> TisCamera \<Rightarrow> bool res \<times> TisCamera" where
  "tis_set_exposure exposure c =
     (if \<not> dev_accepts (tis_grabber c) exposure then (Raise IC4Exception, c)
      else (Ret True,
            c\<lparr> tis_grabber := (tis_grabber c)\<lparr>dev_exposure_time := exposure\<rparr>,
               tis_state := (tis_state c)\<lparr>tis_current_exposure := exposure\<rparr> \<rparr>))"

text \<open>The number of samples of a frame that are at least \<open>d\<close>: \<open>(frame >= d).sum()\<close>.\<close>

definition count_ge :: "ndarray \<Rightarrow> int \<Rightarrow> int" where
  "count_ge frame d = int (length (filter (\<lambda>v. v \<ge> d) (arr_data frame)))"

text \<open>
  \<open>_find_exposure_for_saturation\<close>. With \<open>frame = None\<close> the comparison
  \<open>frame >= dynamic_range\<close> raises \<open>TypeError\<close> before the state is touched.
\<close>

definition find_exposure_for_saturation :: "ndarray option \<Rightarrow> TisCamera \<Rightarrow> bool res \<times> TisCamera" where
  "find_exposure_for_saturation frame c =
     (let st = tis_state c;
          max_saturation = (if state_bit_depth st = 16 then 100 else 8000);
          tol = (if state_bit_depth st = 16 then 20 else 1000)
      in case frame of
           None \<Rightarrow> (Raise TypeError, c)
         | Some fr \<Rightarrow>
            (let saturated = count_ge fr (dynamic_range st);
                 st1 = (if saturated > max_saturation
                        then st\<lparr>tis_max_exposure := tis_current_exposure st - 1\<rparr>
                        else st\<lparr>tis_min_exposure := tis_current_exposure st + 1\<rparr>);
                 tmp = tis_max_exposure st1 - tis_min_exposure st1;
                 mid_exposure = (tis_max_exposure st1 + tis_min_exposure st1) div 2;
                 converged =
                   (\<bar>saturated - max_saturation\<bar> < tol
                    \<or> \<bar>tmp\<bar> < 10
                    \<or> \<bar>tis_current_exposure st1 - mid_exposure\<bar> \<le> 2 * TIS_EXPOSURE_INCREMENT)
             in (Ret converged, c\<lparr>tis_state := st1\<rparr>)))"

definition tis_init_exposure :: "int \<Rightarrow> TisCamera \<Rightarrow> TisCamera" where
  "tis_init_exposure max_exposure c =
     c\<lparr>tis_state := (tis_state c)
         \<lparr> tis_max_exposure := min TIS_MAX_EXPOSURE_MS (max_exposure div 1000),
           tis_min_exposure := TIS_MIN_EXPOSURE_MS \<rparr>\<rparr>"

definition tis_adjust_exposure :: "TisCamera \<Rightarrow> unit res \<times> TisCamera" where
  "tis_adjust_exposure c =
     (case tis_set_exposure
             ((tis_max_exposure (tis_state c) + tis_min_exposure (tis_state c)) div 2) c of
        (Raise e, c') \<Rightarrow> (Raise e, c')
      | (Ret _, c') \<Rightarrow> (Ret (), c'))"

definition tis_check_exposure :: "ndarray option \<Rightarrow> TisCamera \<Rightarrow> bool res \<times> TisCamera" where
  "tis_check_exposure frame c = find_exposure_for_saturation frame c"

definition tis_toggle_view :: "TisCamera \<Rightarrow> TisCamera" where
  "tis_toggle_view c =
     c\<lparr>tis_state := (tis_state c)\<lparr>tis_demosaic := \<not> tis_demosaic (tis_state c)\<rparr>\<rparr>"

section \<open>mock_interface.py: the Camera interface\<close>

text \<open>
  A call on an object: the state before, the outcome and the state after. A call
  that raises leaves the object as it was mutated up to the raise.
\<close>

type_synonym ('a, 's) call = "'s \<Rightarrow> 'a res \<times> 's"

definition bind :: "('a, 's) call \<Rightarrow> ('a \<Rightarrow> ('b, 's) call) \<Rightarrow> ('b, 's) call" where
  "bind m f s = (case m s of (Raise e, s') \<Rightarrow> (Raise e, s') | (Ret a, s') \<Rightarrow> f a s')"

text \<open>
  The abstract class \<open>Camera\<close>: a backend is the collection of its methods over its
  own state \<open>'c\<close>. Every method may raise. \<open>open\<close>, \<open>close\<close> and
  \<open>get_envi_options\<close> are left out: they act on the SDK handles, respectively read
  the clock for the metadata header; the modelled camera is an opened one.
  \<open>exception_type\<close> is given as the test whether an exception is an instance of
  the declared type.
\<close>

record 'c Camera =
  cam_toggle_bit_depth :: "(unit, 'c) call"
  cam_bit_depth :: "(int, 'c) call"
  cam_get_frame :: "(ndarray \<times> view, 'c) call"
  cam_exposure :: "(int, 'c) call"
  cam_set_exposure :: "int \<Rightarrow> (bool, 'c) call"
  cam_init_exposure :: "int \<Rightarrow> (unit, 'c) call"
  cam_adjust_exposure :: "(unit, 'c) call"
  cam_check_exposure :: "ndarray option \<Rightarrow> (bool, 'c) call"
  cam_toggle_view :: "(unit, 'c) call"
  cam_set_save_subfolder :: "string \<Rightarrow> (unit, 'c) call"
  cam_save_folder :: "(path option, 'c) call"
  cam_exception_type :: "exn \<Rightarrow> bool"

definition MockCamera_methods :: "MockCamera Camera" where
  "MockCamera_methods =
     \<lparr> cam_toggle_bit_depth = (\<lambda>c. (Ret (), mock_toggle_bit_depth c)),
       cam_bit_depth = (\<lambda>c. (Ret (mock_bit_depth c), c)),
       cam_get_frame = (\<lambda>c. (Ret (fst (mock_get_frame c)), snd (mock_get_frame c))),
       cam_exposure = (\<lambda>c. (Ret (mock_exposure c), c)),
       cam_set_exposure =
         (\<lambda>v c. (Ret (fst (mock_set_exposure v c)), snd (mock_set_exposure v c))),
       cam_init_exposure = (\<lambda>v c. (Ret (), mock_init_exposure v c)),
       cam_adjust_exposure = (\<lambda>c. (Ret (), mock_adjust_exposure c)),
       cam_check_exposure =
         (\<lambda>f c. (Ret (fst (mock_check_exposure f c)), snd (mock_check_exposure f c))),
       cam_toggle_view = (\<lambda>c. (Ret (), mock_toggle_view c)),
       cam_set_save_subfolder = (\<lambda>s c. (Ret (), mock_set_save_subfolder s c)),
       cam_save_folder = (\<lambda>c. (Ret (Some (mock_save_folder c)), c)),
       cam_exception_type = mock_exception_type \<rparr>"

definition TisCamera_methods :: "TisCamera Camera" where
  "TisCamera_methods =
     \<lparr> cam_toggle_bit_depth = (\<lambda>c. (Ret (), tis_toggle_bit_depth c)),
       cam_bit_depth = (\<lambda>c. (Ret (tis_bit_depth c), c)),
       cam_get_frame = tis_get_frame,
       cam_exposure = (\<lambda>c. (Ret (tis_exposure c), c)),
       cam_set_exposure = tis_set_exposure,
       cam_init_exposure = (\<lambda>v c. (Ret (), tis_init_exposure v c)),
       cam_adjust_exposure = tis_adjust_exposure,
       cam_check_exposure = tis_check_exposure,
       cam_toggle_view = (\<lambda>c. (Ret (), tis_toggle_view c)),
       cam_set_save_subfolder = (\<lambda>s c. (Ret (), tis_set_save_subfolder s c)),
       cam_save_folder = (\<lambda>c. (Ret (tis_save_folder_meth c), c)),
       cam_exception_type = tis_exception_type \<rparr>"

text \<open>
  The calls that can change a camera, and the camera after a sequence of them
  (whether a call returned or raised).
\<close>

datatype method_call = ToggleBitDepth | GetFrame | SetExposure int | InitExposure int
  | AdjustExposure | CheckExposure "ndarray option" | ToggleView | SetSaveSubfolder string

fun after_call :: "'c Camera \<Rightarrow> 'c \<Rightarrow> method_call \<Rightarrow> 'c" where
  "after_call C c ToggleBitDepth = snd (cam_toggle_bit_depth C c)"
| "after_call C c GetFrame = snd (cam_get_frame C c)"
| "after_call C c (SetExposure v) = snd (cam_set_exposure C v c)"
| "after_call C c (InitExposure v) = snd (cam_init_exposure C v c)"
| "after_call C c AdjustExposure = snd (cam_adjust_exposure C c)"
| "after_call C c (CheckExposure f) = snd (cam_check_exposure C f c)"
| "after_call C c ToggleView = snd (cam_toggle_view C c)"
| "after_call C c (SetSaveSubfolder s) = snd (cam_set_save_subfolder C s c)"

definition after_calls :: "'c Camera \<Rightarrow> 'c \<Rightarrow> method_call list \<Rightarrow> 'c" where
  "after_calls C c ks = foldl (after_call C) c ks"

text \<open>
  The serializer's \<open>save_frame\<close> (module \<open>camera_visualizer.serializer\<close>) is
  external: a call to it is recorded with its arguments (the metadata header apart),
  and whether it raises is a parameter.
\<close>

datatype SaveFormatEnum = ENVI | OtherFormat string

record save_call =
  sc_frame :: ndarray
  sc_save_folder :: "path option"
  sc_filename_stem :: string
  sc_fmt :: SaveFormatEnum

type_synonym serializer = "save_call \<Rightarrow> exn option"

section \<open>mock_interface.py: the device registry\<close>

definition MOCK :: string where "MOCK = ''mock''"
definition XIMEA :: string where "XIMEA = ''ximea''"
definition TIS :: string where "TIS = ''tis''"

datatype 'x backend = MockBackend MockCamera | XimeaBackend 'x | TisBackend TisCamera

datatype module = ximea_interface | tis_interface

text \<open>
  The host: the data path, and what importing a hardware module and constructing
  its camera gives there (the Ximea camera, whose module is not among the sources,
  and the device handle of the TIS camera), or the exception it raises.
\<close>

record 'x host =
  host_data_path :: path
  host_ximea :: "'x res"
  host_tis :: "ic4_device res"

text \<open>\<open>camera(camera_id)\<close>: the modules it imports and its outcome.\<close>

definition camera :: "'x host \<Rightarrow> string \<Rightarrow> module list \<times> 'x backend res" where
  "camera h camera_id =
     (if camera_id = MOCK then ([], Ret (MockBackend (MockCamera_init (host_data_path h))))
      else if camera_id = XIMEA then
        ([ximea_interface],
         case host_ximea h of Raise e \<Rightarrow> Raise e | Ret x \<Rightarrow> Ret (XimeaBackend x))
      else if camera_id = TIS then
        ([tis_interface],
         case host_tis h of Raise e \<Rightarrow> Raise e
         | Ret d \<Rightarrow> Ret (TisBackend (TisCamera_init (host_data_path h) d)))
      else ([], Raise ValueError))"

section \<open>gui.py: VideoPlayer\<close>

text \<open>
  \<open>GuiState\<close>. The frame rate is modelled as an integer (the player is constructed
  with \<open>fps=30\<close> and the slider delivers integers).
\<close>

record GuiState =
  selected_camera :: string
  fps :: int
  frame_counter :: int
  recording :: bool
  running :: bool
  paused :: bool
  estimating_exposure :: bool
  exposure_tries :: int
  recording_format :: SaveFormatEnum
  filename_stem :: string

definition GuiState_init :: "string \<Rightarrow> int \<Rightarrow> GuiState" where
  "GuiState_init camera_id fps_val =
     \<lparr> selected_camera = camera_id, fps = fps_val, frame_counter = 0, recording = False,
       running = False, paused = False, estimating_exposure = False, exposure_tries = 0,
       recording_format = ENVI, filename_stem = ''frame'' \<rparr>"

datatype QImage = Format_Grayscale8 view | Format_RGB888 view

text \<open>
  The player: its camera, its state, its current image, and the calls it has made
  to the serializer so far (oldest first). The widgets are not modelled.
\<close>

record 'c VideoPlayer =
  vp_camera :: 'c
  vp_state :: GuiState
  vp_current_image :: "QImage option"
  vp_saves :: "save_call list"

definition on_camera :: "('a, 'c) call \<Rightarrow> ('a, 'c VideoPlayer) call" where
  "on_camera m p = (case m (vp_camera p) of (r, c') \<Rightarrow> (r, p\<lparr>vp_camera := c'\<rparr>))"

text \<open>The shape of a display frame.\<close>

fun view_shape :: "view \<Rightarrow> nat list" where
  "view_shape (RawView a) = arr_shape a"
| "view_shape (NormalizedView a d demosaic) =
     (if demosaic then take 2 (butlast (arr_shape a)) @ [3] else butlast (arr_shape a))"

text \<open>
  \<open>numpy_to_pixmap_format\<close>: an array that is neither two- nor three-dimensional
  reaches \<open>return qimg.copy()\<close> with \<open>qimg\<close> unassigned (the \<open>ValueError\<close> of
  the last branch is built but not raised).
\<close>

definition numpy_to_pixmap_format :: "view \<Rightarrow> QImage res" where
  "numpy_to_pixmap_format arr =
     (let sh = view_shape arr; ndim = length sh in
      if ndim = 2 \<or> (ndim = 3 \<and> sh ! 2 = 1) then Ret (Format_Grayscale8 arr)
      else if ndim = 3 then Ret (Format_RGB888 arr)
      else Raise UnboundLocalError)"

text \<open>The decimal digits of a natural number, and the format \<open>:04d\<close>.\<close>

definition digit :: "nat \<Rightarrow> char" where
  "digit d = ''0123456789'' ! d"

fun decimal :: "nat \<Rightarrow> string" where
  "decimal n = (if n < 10 then [digit n] else decimal (n div 10) @ [digit (n mod 10)])"

definition zfill :: "nat \<Rightarrow> string \<Rightarrow> string" where
  "zfill w s = replicate (w - length s) CHR ''0'' @ s"

definition format_04d :: "int \<Rightarrow> string" where
  "format_04d n =
     (if n < 0 then CHR ''-'' # zfill 3 (decimal (nat (- n))) else zfill 4 (decimal (nat n)))"

text \<open>\<open>Camera.save_frame\<close>, called by the player on its camera.\<close>

definition save_frame ::
  "'c Camera \<Rightarrow> serializer \<Rightarrow> ndarray \<Rightarrow> string \<Rightarrow> SaveFormatEnum \<Rightarrow> (unit, 'c VideoPlayer) call" where
  "save_frame C ser frame stem fmt =
     bind (on_camera (cam_save_folder C)) (\<lambda>folder p.
       let k = \<lparr> sc_frame = frame, sc_save_folder = folder,
                 sc_filename_stem = stem, sc_fmt = fmt \<rparr>;
           p' = p\<lparr>vp_saves := vp_saves p @ [k]\<rparr>
       in case ser k of Some e \<Rightarrow> (Raise e, p') | None \<Rightarrow> (Ret (), p'))"

text \<open>
  \<open>toggle_recording\<close>; \<open>timestamp\<close> is the formatted reading of the clock.
\<close>

definition toggle_recording :: "'c Camera \<Rightarrow> string \<Rightarrow> (unit, 'c VideoPlayer) call" where
  "toggle_recording C timestamp p =
     (if \<not> running (vp_state p) \<or> paused (vp_state p) then (Ret (), p)
      else
        let p1 = p\<lparr>vp_state := (vp_state p)\<lparr>recording := \<not> recording (vp_state p)\<rparr>\<rparr> in
        if recording (vp_state p1)
        then on_camera (cam_set_save_subfolder C timestamp)
               (p1\<lparr>vp_state := (vp_state p1)\<lparr>frame_counter := 0\<rparr>\<rparr>)
        else (Ret (), p1))"

text \<open>
  \<open>toggle_exposure\<close>; the floor division \<open>1_000_000 // fps\<close> raises when the
  rate is zero, after the two fields have been set.
\<close>

definition toggle_exposure :: "'c Camera \<Rightarrow> (unit, 'c VideoPlayer) call" where
  "toggle_exposure C p =
     (if \<not> running (vp_state p) \<or> paused (vp_state p) \<or> estimating_exposure (vp_state p)
      then (Ret (), p)
      else
        let p1 = p\<lparr>vp_state := (vp_state p)\<lparr>estimating_exposure := True, exposure_tries := 0\<rparr>\<rparr>
        in if fps (vp_state p1) = 0 then (Raise ZeroDivisionError, p1)
           else on_camera (cam_init_exposure C (1000000 div fps (vp_state p1))) p1)"

text \<open>The parts of \<open>update_frame\<close>, in the order of the source.\<close>

definition tick_adjust :: "'c Camera \<Rightarrow> (unit, 'c VideoPlayer) call" where
  "tick_adjust C p =
     (if estimating_exposure (vp_state p)
      then bind (on_camera (cam_adjust_exposure C))
             (\<lambda>_. bind (on_camera (cam_exposure C)) (\<lambda>exposure p'. (Ret (), p'))) p
      else (Ret (), p))"

definition tick_get_frame ::
  "'c Camera \<Rightarrow> (ndarray option \<times> view option, 'c VideoPlayer) call" where
  "tick_get_frame C p =
     (case on_camera (cam_get_frame C) p of
        (Ret (frame_save, frame_view), p') \<Rightarrow> (Ret (Some frame_save, Some frame_view), p')
      | (Raise e, p') \<Rightarrow>
          if cam_exception_type C e then (Ret (None, None), p') else (Raise e, p'))"

definition tick_show :: "view option \<Rightarrow> (unit, 'c VideoPlayer) call" where
  "tick_show frame_view p =
     (case frame_view of
        None \<Rightarrow> (Ret (), p)
      | Some v \<Rightarrow>
          (case numpy_to_pixmap_format v of
             Raise e \<Rightarrow> (Raise e, p)
           | Ret img \<Rightarrow> (Ret (), p\<lparr>vp_current_image := Some img\<rparr>)))"

definition tick_record ::
  "'c Camera \<Rightarrow> serializer \<Rightarrow> ndarray option \<Rightarrow> (unit, 'c VideoPlayer) call" where
  "tick_record C ser frame_save p =
     (case frame_save of
        Some frame \<Rightarrow>
          if recording (vp_state p)
          then bind (save_frame C ser frame
                       (''frame_'' @ format_04d (frame_counter (vp_state p)))
                       (recording_format (vp_state p)))
                 (\<lambda>_ p'. (Ret (), p'\<lparr>vp_state := (vp_state p')
                             \<lparr>frame_counter := frame_counter (vp_state p') + 1\<rparr>\<rparr>)) p
          else (Ret (), p)
      | None \<Rightarrow> (Ret (), p))"

definition tick_check :: "'c Camera \<Rightarrow> ndarray option \<Rightarrow> (unit, 'c VideoPlayer) call" where
  "tick_check C frame_save p =
     (if estimating_exposure (vp_state p)
      then bind (on_camera (cam_check_exposure C frame_save))
        (\<lambda>converged p'.
           let s1 = (vp_state p')\<lparr>estimating_exposure := \<not> converged\<rparr>;
               s2 = s1\<lparr>exposure_tries := exposure_tries s1 + 1\<rparr>;
               s3 = (if exposure_tries s2 \<ge> 50 then s2\<lparr>estimating_exposure := False\<rparr> else s2);
               s4 = (if \<not> estimating_exposure s3 then s3\<lparr>exposure_tries := 0\<rparr> else s3)
           in (Ret (), p'\<lparr>vp_state := s4\<rparr>)) p
      else (Ret (), p))"

definition update_frame :: "'c Camera \<Rightarrow> serializer \<Rightarrow> (unit, 'c VideoPlayer) call" where
  "update_frame C ser p =
     (if \<not> running (vp_state p) \<or> paused (vp_state p) then (Ret (), p)
      else
        bind (tick_adjust C) (\<lambda>_.
        bind (tick_get_frame C) (\<lambda>(frame_save, frame_view).
        bind (tick_show frame_view) (\<lambda>_.
        bind (tick_record C ser frame_save) (\<lambda>_.
        tick_check C frame_save)))) p)"

text \<open>
  A number of timer ticks in a row; an exception that leaves the tick handler ends
  the run.
\<close>

fun ticks :: "'c Camera \<Rightarrow> serializer \<Rightarrow> nat \<Rightarrow> (unit, 'c VideoPlayer) call" where
  "ticks C ser 0 p = (Ret (), p)"
| "ticks C ser (Suc n) p = bind (update_frame C ser) (\<lambda>_. ticks C ser n) p"

section \<open>Auxiliary notions and concrete inputs\<close>

text \<open>A TIS device that accepts every exposure value and has no frame pending.\<close>

definition example_device :: ic4_device where
  "example_device = \<lparr> dev_snaps = [], dev_accepts = (\<lambda>v. True), dev_exposure_time = 500 \<rparr>"

text \<open>A dark frame of the TIS camera: 480 x 640 x 1 samples, none saturated.\<close>

definition dark_frame :: ndarray where
  "dark_frame = \<lparr> arr_shape = [480, 640, 1], arr_data = replicate 307200 0 \<rparr>"

text \<open>
  A TIS camera in an exposure search at 30 frames per second: constructed,
  \<open>init_exposure(33333)\<close>, then \<open>adjust_exposure()\<close>.
\<close>

definition tis_searching :: TisCamera where
  "tis_searching =
     snd (tis_adjust_exposure (tis_init_exposure 33333 (TisCamera_init [] example_device)))"

text \<open>A mock camera in an exposure search whose midpoint is near the target.\<close>

definition mock_near_target :: MockCamera where
  "mock_near_target = mock_adjust_exposure (mock_init_exposure 20000 (MockCamera_init []))"

text \<open>What every mock camera satisfies: the two toggled fields stay in their ranges.\<close>

definition mock_wf :: "MockCamera \<Rightarrow> bool" where
  "mock_wf c \<longleftrightarrow> (mock_bit_depth_field c = 8 \<or> mock_bit_depth_field c = 16)
     \<and> (mock_toggle_view_field c = 0 \<or> mock_toggle_view_field c = 1)"

fun is_set_save_subfolder :: "method_call \<Rightarrow> bool" where
  "is_set_save_subfolder (SetSaveSubfolder s) = True"
| "is_set_save_subfolder _ = False"

text \<open>A player as constructed (\<open>VideoPlayer.__init__\<close> with \<open>fps=30\<close>) around a camera.\<close>

definition player_of :: "'c \<Rightarrow> 'c VideoPlayer" where
  "player_of c = \<lparr> vp_camera = c, vp_state = GuiState_init MOCK 30,
                   vp_current_image = None, vp_saves = [] \<rparr>"

text \<open>A host without any hardware SDK.\<close>

definition bare_host :: "unit host" where
  "bare_host = \<lparr> host_data_path = [''data''], host_ximea = Raise ImportError,
                 host_tis = Raise ImportError \<rparr>"

text \<open>A mock player that is running, recording and paused.\<close>

definition paused_player :: "MockCamera VideoPlayer" where
  "paused_player =
     (player_of (MockCamera_init []))
       \<lparr>vp_state := (GuiState_init MOCK 30)\<lparr>running := True, paused := True, recording := True\<rparr>\<rparr>"

text \<open>A TIS device whose next \<open>snap_single\<close> times out.\<close>

definition timeout_device :: ic4_device where
  "timeout_device = \<lparr> dev_snaps = [None], dev_accepts = (\<lambda>v. True), dev_exposure_time = 500 \<rparr>"

text \<open>A running TIS player on that device, and the same after \<open>toggle_exposure\<close>.\<close>

definition tis_running_player :: "TisCamera VideoPlayer" where
  "tis_running_player =
     (player_of (TisCamera_init [] timeout_device))
       \<lparr>vp_state := (GuiState_init TIS 30)\<lparr>running := True\<rparr>\<rparr>"

definition tis_estimating_player :: "TisCamera VideoPlayer" where
  "tis_estimating_player = snd (toggle_exposure TisCamera_methods tis_running_player)"

text \<open>
  The mock camera with its convergence test replaced by another one: a backend
  whose \<open>check_exposure\<close> answers as \<open>chk\<close> does.
\<close>

definition mock_variant ::
  "(ndarray option \<Rightarrow> MockCamera \<Rightarrow> bool \<times> MockCamera) \<Rightarrow> MockCamera Camera" where
  "mock_variant chk =
     MockCamera_methods\<lparr>cam_check_exposure := (\<lambda>f c. (Ret (fst (chk f c)), snd (chk f c)))\<rparr>"

text \<open>A convergence test that never reports convergence.\<close>

definition never_converged :: "ndarray option \<Rightarrow> MockCamera \<Rightarrow> bool \<times> MockCamera" where
  "never_converged f c = (False, c)"

text \<open>A running mock player at 30 frames per second.\<close>

definition mock_running_player :: "MockCamera VideoPlayer" where
  "mock_running_player =
     (player_of (MockCamera_init []))\<lparr>vp_state := (GuiState_init MOCK 30)\<lparr>running := True\<rparr>\<rparr>"

text \<open>The running mock player after \<open>toggle_recording\<close>.\<close>

definition mock_recording_player :: "MockCamera VideoPlayer" where
  "mock_recording_player =
     snd (toggle_recording MockCamera_methods ''20250101_120000'' mock_running_player)"

text \<open>
  A device that serves \<open>n\<close> ticks: it accepts every exposure value and holds at
  least \<open>n\<close> pending snaps, each a frame of three dimensions (height, width,
  channel).
\<close>

definition live_device :: "ic4_device \<Rightarrow> nat \<Rightarrow> bool" where
  "live_device d n \<longleftrightarrow> dev_accepts d = (\<lambda>v. True) \<and> n \<le> length (dev_snaps d)
     \<and> list_all (\<lambda>x. case x of None \<Rightarrow> False | Some fr \<Rightarrow> length (arr_shape fr) = 3)
          (dev_snaps d)"

text \<open>A device with fifty dark frames pending, and a running TIS player on it.\<close>

definition live_example_device :: ic4_device where
  "live_example_device =
     \<lparr> dev_snaps = replicate 50 (Some dark_frame), dev_accepts = (\<lambda>v. True),
       dev_exposure_time = 500 \<rparr>"

definition tis_live_player :: "TisCamera VideoPlayer" where
  "tis_live_player =
     (player_of (TisCamera_init [] live_example_device))
       \<lparr>vp_state := (GuiState_init TIS 30)\<lparr>running := True\<rparr>\<rparr>"

section \<open>Properties\<close>

subsection \<open>C1: set_exposure\<close>

text \<open>
  C1, as stated, fails on the TIS camera: \<open>set_exposure(15000)\<close>, the reported
  minimum itself, returns true and changes what \<open>exposure()\<close> reports.
\<close>

theorem C1_counterexample:
  "15000 \<le> fst (tis_exposure_range (TisCamera_init [] example_device))
   \<and> fst (tis_set_exposure 15000 (TisCamera_init [] example_device)) = Ret True
   \<and> tis_exposure (snd (tis_set_exposure 15000 (TisCamera_init [] example_device)))
       \<noteq> tis_exposure (TisCamera_init [] example_device)"
  by (simp add: tis_exposure_range_def tis_set_exposure_def TisCamera_init_def example_device_def
      tis_exposure_def TIS_MIN_EXPOSURE_MS_def TIS_DEFAULT_EXPOSURE_TIME_MS_def)

text \<open>
  C1 (amended): \<open>MockCamera.set_exposure(v)\<close> returns false and leaves the camera
  unchanged whenever \<open>v\<close> is at most the camera's current lower search bound or at
  least its current upper search bound, and otherwise returns true with
  \<open>exposure() == v\<close>; on a freshly constructed mock camera these bounds are the
  reported range (100, 500000), so \<open>set_exposure(50)\<close> is refused and
  \<open>set_exposure(100000)\<close> is accepted. \<open>TisCamera.set_exposure\<close> has no range
  check: it never returns false, and when it returns it has stored \<open>v\<close> as the
  current exposure.
\<close>

theorem C1_set_exposure:
  "(v \<le> mock_exposure_min c \<or> v \<ge> mock_exposure_max c \<longrightarrow>
      mock_set_exposure v c = (False, c))
   \<and> (\<not> (v \<le> mock_exposure_min c \<or> v \<ge> mock_exposure_max c) \<longrightarrow>
      fst (mock_set_exposure v c) = True
      \<and> mock_exposure (snd (mock_set_exposure v c)) = v)
   \<and> (mock_exposure_min (MockCamera_init dp), mock_exposure_max (MockCamera_init dp), 20)
       = mock_exposure_range (MockCamera_init dp)
   \<and> mock_set_exposure 50 (MockCamera_init dp) = (False, MockCamera_init dp)
   \<and> fst (mock_set_exposure 100000 (MockCamera_init dp)) = True
   \<and> mock_exposure (snd (mock_set_exposure 100000 (MockCamera_init dp))) = 100000
   \<and> fst (tis_set_exposure v t) \<noteq> Ret False
   \<and> (fst (tis_set_exposure v t) = Ret True \<longrightarrow>
        tis_current_exposure (tis_state (snd (tis_set_exposure v t))) = v)"
  by (auto simp: mock_set_exposure_def MockCamera_init_def mock_exposure_range_def
      tis_set_exposure_def)

theorem C1_set_exposure_witness:
  "(50::int) \<le> mock_exposure_min (MockCamera_init [])
   \<and> mock_set_exposure 50 (MockCamera_init []) = (False, MockCamera_init [])
   \<and> \<not> ((1000::int) \<le> mock_exposure_min (MockCamera_init [])
          \<or> 1000 \<ge> mock_exposure_max (MockCamera_init []))
   \<and> mock_exposure (snd (mock_set_exposure 1000 (MockCamera_init []))) = 1000
   \<and> fst (tis_set_exposure 20 (TisCamera_init [] example_device)) = Ret True
   \<and> tis_current_exposure (tis_state (snd (tis_set_exposure 20 (TisCamera_init [] example_device)))) = 20"
  using C1_set_exposure [of 50 "MockCamera_init []" "[]" "TisCamera_init [] example_device"]
        C1_set_exposure [of 1000 "MockCamera_init []" "[]" "TisCamera_init [] example_device"]
        C1_set_exposure [of 20 "MockCamera_init []" "[]" "TisCamera_init [] example_device"]
  by (simp add: MockCamera_init_def tis_set_exposure_def example_device_def TisCamera_init_def)

subsection \<open>C4: the convergence test of the TIS camera\<close>

lemma count_ge_card:
  "count_ge fr d = int (card {i. i < length (arr_data fr) \<and> arr_data fr ! i \<ge> d})"
  by (simp add: count_ge_def length_filter_conv_card)

lemma state_bit_depth_cases: "state_bit_depth st = 8 \<or> state_bit_depth st = 16"
  by (cases "tis_pixel_format st") (simp_all add: state_bit_depth_def)

lemma count_ge_dark: "count_ge dark_frame 65535 = 0"
  by (simp add: count_ge_def dark_frame_def)

text \<open>
  C4: \<open>TisCamera.check_exposure(frame)\<close> counts the samples at or above
  \<open>2^bitDepth - 1\<close>; if the count exceeds the threshold (100 at 16 bit, 8000 at
  8 bit, the only two depths) it sets \<open>max_exposure\<close> to \<open>current - 1\<close>, otherwise
  \<open>min_exposure\<close> to \<open>current + 1\<close>; and it returns true exactly when the count is
  within the tolerance (20 at 16 bit, 1000 at 8 bit) of the threshold, or the new
  interval is narrower than 10, or the current exposure is within two exposure
  increments of the midpoint of the new interval.
\<close>

theorem C4_check_exposure:
  "let st = tis_state c;
       bd = tis_bit_depth c;
       saturated = int (card {i. i < length (arr_data fr) \<and> arr_data fr ! i \<ge> 2 ^ nat bd - 1});
       threshold = (if bd = 16 then 100 else 8000);
       tolerance = (if bd = 16 then 20 else 1000);
       current = tis_current_exposure st;
       new_max = (if saturated > threshold then current - 1 else tis_max_exposure st);
       new_min = (if saturated > threshold then tis_min_exposure st else current + 1)
   in (bd = 8 \<or> bd = 16)
      \<and> tis_check_exposure (Some fr) c =
          (Ret (\<bar>saturated - threshold\<bar> < tolerance
                \<or> \<bar>new_max - new_min\<bar> < 10
                \<or> \<bar>current - (new_max + new_min) div 2\<bar> \<le> 2 * TIS_EXPOSURE_INCREMENT),
           c\<lparr>tis_state := st\<lparr>tis_max_exposure := new_max, tis_min_exposure := new_min\<rparr>\<rparr>)"
  using state_bit_depth_cases [of "tis_state c"]
  by (auto simp: Let_def tis_check_exposure_def find_exposure_for_saturation_def tis_bit_depth_def
      dynamic_range_def count_ge_card)

subsection \<open>C5: the search bounds on convergence\<close>

text \<open>
  C5, as stated, fails on the TIS camera: in a search started at 30 frames per
  second, the first dark frame makes \<open>check_exposure\<close> return true and leaves the
  bounds at (25, 33), not at the absolute bounds (15, 33333).
\<close>

theorem C5_counterexample:
  "fst (tis_check_exposure (Some dark_frame) tis_searching) = Ret True
   \<and> tis_min_exposure (tis_state (snd (tis_check_exposure (Some dark_frame) tis_searching))) = 25
   \<and> tis_max_exposure (tis_state (snd (tis_check_exposure (Some dark_frame) tis_searching))) = 33
   \<and> (TIS_MIN_EXPOSURE_MS, TIS_MAX_EXPOSURE_MS) = (15, 33333)"
  by (simp add: tis_check_exposure_def find_exposure_for_saturation_def tis_searching_def
      tis_adjust_exposure_def tis_set_exposure_def tis_init_exposure_def TisCamera_init_def
      example_device_def state_bit_depth_def dynamic_range_def count_ge_dark Let_def
      TIS_MIN_EXPOSURE_MS_def TIS_MAX_EXPOSURE_MS_def TIS_DEFAULT_PIXEL_FORMAT_def
      TIS_EXPOSURE_INCREMENT_def TIS_DEFAULT_EXPOSURE_TIME_MS_def TIS_TIMEOUT_MS_def)

text \<open>
  C5 (amended): whenever \<open>MockCamera.check_exposure\<close> returns true, the mock
  camera's search bounds are reset to the first two components of its
  \<open>exposure_range()\<close>. \<open>TisCamera.check_exposure\<close> never resets its bounds:
  whatever it returns, it has moved one bound next to the current exposure and left
  the other where it was; the TIS bounds are set anew by \<open>init_exposure\<close>.
\<close>

theorem C5_bounds_on_convergence:
  "(fst (mock_check_exposure f c) \<longrightarrow>
      (mock_exposure_min (snd (mock_check_exposure f c)),
       mock_exposure_max (snd (mock_check_exposure f c)), 20) = mock_exposure_range c)
   \<and> (tis_check_exposure (Some fr) t = (Ret b, t') \<longrightarrow>
        (tis_max_exposure (tis_state t') = tis_current_exposure (tis_state t) - 1
           \<and> tis_min_exposure (tis_state t') = tis_min_exposure (tis_state t))
        \<or> (tis_min_exposure (tis_state t') = tis_current_exposure (tis_state t) + 1
           \<and> tis_max_exposure (tis_state t') = tis_max_exposure (tis_state t)))
   \<and> tis_min_exposure (tis_state (tis_init_exposure hint t)) = TIS_MIN_EXPOSURE_MS
   \<and> tis_max_exposure (tis_state (tis_init_exposure hint t))
       = min TIS_MAX_EXPOSURE_MS (hint div 1000)"
  by (auto simp: mock_check_exposure_def mock_exposure_range_def Let_def tis_check_exposure_def
      find_exposure_for_saturation_def tis_init_exposure_def split: if_splits)

theorem C5_bounds_on_convergence_witness:
  "fst (mock_check_exposure None mock_near_target)
   \<and> mock_exposure_min (snd (mock_check_exposure None mock_near_target)) = 100
   \<and> mock_exposure_max (snd (mock_check_exposure None mock_near_target)) = 500000
   \<and> tis_check_exposure (Some dark_frame) tis_searching
       = (Ret True, snd (tis_check_exposure (Some dark_frame) tis_searching))
   \<and> tis_min_exposure (tis_state (snd (tis_check_exposure (Some dark_frame) tis_searching)))
       = tis_current_exposure (tis_state tis_searching) + 1"
  using C5_bounds_on_convergence [of None mock_near_target dark_frame tis_searching True
          "snd (tis_check_exposure (Some dark_frame) tis_searching)"]
  by (simp add: mock_check_exposure_def mock_near_target_def mock_adjust_exposure_def
      mock_init_exposure_def MockCamera_init_def mock_exposure_range_def
      tis_check_exposure_def find_exposure_for_saturation_def tis_searching_def
      tis_adjust_exposure_def tis_set_exposure_def tis_init_exposure_def TisCamera_init_def
      example_device_def state_bit_depth_def dynamic_range_def count_ge_dark Let_def
      TIS_MIN_EXPOSURE_MS_def TIS_MAX_EXPOSURE_MS_def TIS_DEFAULT_PIXEL_FORMAT_def
      TIS_EXPOSURE_INCREMENT_def TIS_DEFAULT_EXPOSURE_TIME_MS_def TIS_TIMEOUT_MS_def)

subsection \<open>C9: the toggles\<close>

lemma mock_wf_init: "mock_wf (MockCamera_init dp)"
  by (simp add: mock_wf_def MockCamera_init_def)

lemma mock_wf_after_call: "mock_wf c \<Longrightarrow> mock_wf (after_call MockCamera_methods c k)"
  by (cases k)
     (auto simp: mock_wf_def MockCamera_methods_def mock_toggle_bit_depth_def mock_get_frame_def
        mock_set_exposure_def mock_init_exposure_def mock_adjust_exposure_def Let_def
        mock_check_exposure_def mock_toggle_view_def mock_set_save_subfolder_def)

lemma mock_wf_after_calls: "mock_wf c \<Longrightarrow> mock_wf (after_calls MockCamera_methods c ks)"
  unfolding after_calls_def
  by (induction ks arbitrary: c) (simp_all add: mock_wf_after_call)

text \<open>
  C9: in every state a mock camera can reach from its constructor,
  \<open>toggle_bit_depth\<close> and \<open>toggle_view\<close> applied twice give the camera back,
  \<open>bit_depth()\<close> is 8 or 16 and the view flag is 0 or 1; in any state each of the
  two changes nothing but its own field (restoring that field gives the camera
  back); and \<open>TisCamera.toggle_bit_depth\<close> changes nothing.
\<close>

theorem C9_toggles:
  "(let c = after_calls MockCamera_methods (MockCamera_init dp) ks in
      mock_toggle_bit_depth (mock_toggle_bit_depth c) = c
      \<and> mock_toggle_view (mock_toggle_view c) = c
      \<and> (mock_bit_depth c = 8 \<or> mock_bit_depth c = 16)
      \<and> (mock_toggle_view_field c = 0 \<or> mock_toggle_view_field c = 1))
   \<and> (mock_toggle_bit_depth m)\<lparr>mock_bit_depth_field := mock_bit_depth_field m\<rparr> = m
   \<and> (mock_toggle_view m)\<lparr>mock_toggle_view_field := mock_toggle_view_field m\<rparr> = m
   \<and> tis_toggle_bit_depth t = t"
proof -
  have wf: "mock_wf (after_calls MockCamera_methods (MockCamera_init dp) ks)"
    by (rule mock_wf_after_calls) (rule mock_wf_init)
  show ?thesis
    using wf
    by (auto simp: Let_def mock_wf_def mock_toggle_bit_depth_def mock_toggle_view_def
        mock_bit_depth_def tis_toggle_bit_depth_def)
qed

subsection \<open>C10: the save folder\<close>

lemma tis_subfolder_after_call:
  "\<not> is_set_save_subfolder k \<Longrightarrow>
   tis_save_subfolder (tis_state (after_call TisCamera_methods c k)) = tis_save_subfolder (tis_state c)
   \<and> tis_save_folder (tis_state (after_call TisCamera_methods c k)) = tis_save_folder (tis_state c)"
  by (cases k)
     (auto simp: TisCamera_methods_def tis_toggle_bit_depth_def tis_get_frame_def
        tis_set_exposure_def tis_init_exposure_def tis_adjust_exposure_def Let_def
        tis_check_exposure_def find_exposure_for_saturation_def tis_toggle_view_def
        split: list.splits option.splits)

lemma tis_subfolder_after_calls:
  "\<forall>k\<in>set ks. \<not> is_set_save_subfolder k \<Longrightarrow>
   tis_save_subfolder (tis_state (after_calls TisCamera_methods c ks)) = tis_save_subfolder (tis_state c)"
  unfolding after_calls_def
  by (induction ks arbitrary: c) (simp_all add: tis_subfolder_after_call)

lemma mock_subfolder_after_call:
  "\<not> is_set_save_subfolder k \<Longrightarrow>
   mock_subfolder (after_call MockCamera_methods c k) = mock_subfolder c
   \<and> mock_save_folder_field (after_call MockCamera_methods c k) = mock_save_folder_field c"
  by (cases k)
     (auto simp: MockCamera_methods_def mock_toggle_bit_depth_def mock_get_frame_def
        mock_set_exposure_def mock_init_exposure_def mock_adjust_exposure_def Let_def
        mock_check_exposure_def mock_toggle_view_def)

lemma mock_subfolder_after_calls:
  "\<forall>k\<in>set ks. \<not> is_set_save_subfolder k \<Longrightarrow>
   mock_subfolder (after_calls MockCamera_methods c ks) = mock_subfolder c
   \<and> mock_save_folder_field (after_calls MockCamera_methods c ks) = mock_save_folder_field c"
  unfolding after_calls_def
  by (induction ks arbitrary: c) (simp_all add: mock_subfolder_after_call)

text \<open>
  C10: as long as \<open>set_save_subfolder\<close> has not been called, \<open>save_folder()\<close>
  of a TIS camera is \<open>None\<close> (its \<open>save_path\<close> is \<open>None\<close> exactly when there
  is no subfolder), so \<open>Camera.save_frame\<close> hands \<open>None\<close> to the serializer as
  the folder; after \<open>set_save_subfolder\<close> it is a path. In the same situation
  \<open>save_folder()\<close> of a mock camera is its root data folder.
\<close>

theorem C10_save_folder:
  "((\<forall>k\<in>set ks. \<not> is_set_save_subfolder k) \<longrightarrow>
      tis_save_folder_meth (after_calls TisCamera_methods (TisCamera_init dp dev) ks) = None
      \<and> map sc_save_folder (vp_saves (snd (save_frame TisCamera_methods ser fr stem fmt
            (player_of (after_calls TisCamera_methods (TisCamera_init dp dev) ks))))) = [None]
      \<and> mock_save_folder (after_calls MockCamera_methods (MockCamera_init dp) ks)
          = path_div dp ''mock'')
   \<and> tis_save_folder_meth (tis_set_save_subfolder sub t)
       = Some (path_div (tis_save_folder (tis_state t)) sub)
   \<and> (save_path st = None \<longleftrightarrow> tis_save_subfolder st = None)"
proof -
  have a: "tis_save_folder_meth (after_calls TisCamera_methods (TisCamera_init dp dev) ks) = None"
    if "\<forall>k\<in>set ks. \<not> is_set_save_subfolder k"
    using tis_subfolder_after_calls [OF that, of "TisCamera_init dp dev"]
    by (simp add: tis_save_folder_meth_def save_path_def TisCamera_init_def)
  have b: "map sc_save_folder (vp_saves (snd (save_frame TisCamera_methods ser fr stem fmt
            (player_of c)))) = [None]" if "tis_save_folder_meth c = None" for c
    using that
    by (simp add: save_frame_def bind_def on_camera_def TisCamera_methods_def player_of_def
        Let_def split: option.splits)
  have c: "mock_save_folder (after_calls MockCamera_methods (MockCamera_init dp) ks)
          = path_div dp ''mock''" if "\<forall>k\<in>set ks. \<not> is_set_save_subfolder k"
    using mock_subfolder_after_calls [OF that, of "MockCamera_init dp"]
    by (simp add: mock_save_folder_def MockCamera_init_def)
  have d: "tis_save_folder_meth (tis_set_save_subfolder sub t)
       = Some (path_div (tis_save_folder (tis_state t)) sub)"
    by (simp add: tis_save_folder_meth_def tis_set_save_subfolder_def save_path_def)
  have e: "save_path st = None \<longleftrightarrow> tis_save_subfolder st = None"
    by (simp add: save_path_def split: option.splits)
  show ?thesis using a b c d e by blast
qed

theorem C10_save_folder_witness:
  "map is_set_save_subfolder [ToggleView, SetExposure 20, GetFrame] = [False, False, False]
   \<and> tis_save_folder_meth (after_calls TisCamera_methods (TisCamera_init [''data''] example_device)
        [ToggleView, SetExposure 20, GetFrame]) = None
   \<and> mock_save_folder (after_calls MockCamera_methods (MockCamera_init [''data''])
        [ToggleView, SetExposure 20, GetFrame]) = [''data'', ''mock'']"
  using C10_save_folder [of "[ToggleView, SetExposure 20, GetFrame]" "[''data'']" example_device]
  by (simp add: path_div_def)

subsection \<open>C8: the device registry\<close>

text \<open>
  C8: \<open>camera(camera_id)\<close> returns a mock camera for \<open>mock\<close>, imports the
  Ximea or the TIS module and constructs its camera for \<open>ximea\<close> and \<open>tis\<close>
  (each module is imported for its own identifier only, so the mock camera needs no
  SDK), and raises \<open>ValueError\<close> for every other identifier; a camera of one
  kind is never returned for the identifier of another.
\<close>

theorem C8_camera_registry:
  "camera h ''mock'' = ([], Ret (MockBackend (MockCamera_init (host_data_path h))))
   \<and> camera h ''ximea'' =
        ([ximea_interface], case host_ximea h of Raise e \<Rightarrow> Raise e | Ret x \<Rightarrow> Ret (XimeaBackend x))
   \<and> camera h ''tis'' =
        ([tis_interface], case host_tis h of Raise e \<Rightarrow> Raise e
                          | Ret d \<Rightarrow> Ret (TisBackend (TisCamera_init (host_data_path h) d)))
   \<and> (camera_id \<noteq> ''mock'' \<and> camera_id \<noteq> ''ximea'' \<and> camera_id \<noteq> ''tis'' \<longrightarrow>
        camera h camera_id = ([], Raise ValueError))
   \<and> (ximea_interface \<in> set (fst (camera h camera_id)) \<longleftrightarrow> camera_id = ''ximea'')
   \<and> (tis_interface \<in> set (fst (camera h camera_id)) \<longleftrightarrow> camera_id = ''tis'')
   \<and> (snd (camera h camera_id) = Ret (MockBackend m) \<longrightarrow> camera_id = ''mock'')
   \<and> (snd (camera h camera_id) = Ret (XimeaBackend x) \<longrightarrow> camera_id = ''ximea'')
   \<and> (snd (camera h camera_id) = Ret (TisBackend t) \<longrightarrow> camera_id = ''tis'')"
  by (auto simp: camera_def MOCK_def XIMEA_def TIS_def split: res.splits if_splits)

theorem C8_camera_registry_witness:
  "camera bare_host ''webcam'' = ([], Raise ValueError)
   \<and> snd (camera bare_host ''mock'') = Ret (MockBackend (MockCamera_init [''data'']))
   \<and> fst (camera bare_host ''mock'') = []"
  using C8_camera_registry [of bare_host "''webcam''" "MockCamera_init [''data'']"]
  by (simp add: bare_host_def)

subsection \<open>C7: ticks of a stopped or paused player\<close>

text \<open>
  C7: when the player is not running or is paused, \<open>update_frame\<close> returns and
  leaves the player as it was: the session state, the camera (no frame is pulled),
  the current image and the list of save calls.
\<close>

theorem C7_idle_tick:
  "\<not> running (vp_state p) \<or> paused (vp_state p) \<Longrightarrow> update_frame C ser p = (Ret (), p)"
  by (auto simp: update_frame_def)

theorem C7_idle_tick_witness:
  "update_frame MockCamera_methods (\<lambda>k. None) (player_of (MockCamera_init []))
     = (Ret (), player_of (MockCamera_init []))
   \<and> update_frame MockCamera_methods (\<lambda>k. None) paused_player = (Ret (), paused_player)"
  using C7_idle_tick [of "player_of (MockCamera_init [])" MockCamera_methods "\<lambda>k. None"]
        C7_idle_tick [of paused_player MockCamera_methods "\<lambda>k. None"]
  by (simp add: player_of_def GuiState_init_def paused_player_def)

subsection \<open>C2: a tick whose frame is missed\<close>

lemmas tis_eval = toggle_exposure_def tis_running_player_def tis_estimating_player_def
  player_of_def GuiState_init_def TisCamera_init_def timeout_device_def TisCamera_methods_def
  on_camera_def bind_def tis_init_exposure_def tis_adjust_exposure_def tis_set_exposure_def
  tis_get_frame_def tis_exception_type_def tis_check_exposure_def find_exposure_for_saturation_def
  tis_exposure_def update_frame_def tick_adjust_def tick_get_frame_def tick_show_def
  tick_record_def tick_check_def Let_def
  TIS_MIN_EXPOSURE_MS_def TIS_MAX_EXPOSURE_MS_def TIS_DEFAULT_PIXEL_FORMAT_def
  TIS_EXPOSURE_INCREMENT_def TIS_DEFAULT_EXPOSURE_TIME_MS_def TIS_TIMEOUT_MS_def

text \<open>
  C2 fails during an exposure search. On a running TIS player that is estimating
  the exposure and whose device times out, \<open>get_frame\<close> raises the declared
  \<open>IC4Exception\<close>, which is caught; \<open>check_exposure\<close> is then called with
  \<open>None\<close> and its \<open>TypeError\<close> leaves the tick handler.
\<close>

theorem C2_missed_tick_while_estimating:
  "fst (toggle_exposure TisCamera_methods tis_running_player) = Ret ()
   \<and> estimating_exposure (vp_state tis_estimating_player)
   \<and> fst (cam_get_frame TisCamera_methods
            (vp_camera (snd (tick_adjust TisCamera_methods tis_estimating_player))))
       = Raise IC4Exception
   \<and> cam_exception_type TisCamera_methods IC4Exception
   \<and> fst (update_frame TisCamera_methods ser tis_estimating_player) = Raise TypeError
   \<and> vp_state (snd (update_frame TisCamera_methods ser tis_estimating_player))
       = vp_state tis_estimating_player"
  by (simp add: tis_eval)

theorem C2_missed_tick_while_estimating_witness:
  "fst (update_frame TisCamera_methods (\<lambda>k. None) tis_estimating_player) = Raise TypeError
   \<and> vp_saves (snd (update_frame TisCamera_methods (\<lambda>k. None) tis_estimating_player)) = []"
  using C2_missed_tick_while_estimating [of "\<lambda>k. None"]
  by (simp add: tis_eval)

subsection \<open>The parts of a tick\<close>

lemma bind_cases:
  "bind m f s = (r, s') \<Longrightarrow>
     (\<exists>e. m s = (Raise e, s') \<and> r = Raise e) \<or> (\<exists>a s1. m s = (Ret a, s1) \<and> f a s1 = (r, s'))"
  by (auto simp: bind_def split: prod.splits res.splits)

lemma bind_Ret:
  "bind m f s = (Ret b, s') \<Longrightarrow> \<exists>a s1. m s = (Ret a, s1) \<and> f a s1 = (Ret b, s')"
  by (auto simp: bind_def split: prod.splits res.splits)

lemma on_camera_frame:
  "on_camera m p = (r, p') \<Longrightarrow>
     vp_state p' = vp_state p \<and> vp_saves p' = vp_saves p
     \<and> vp_current_image p' = vp_current_image p"
  by (auto simp: on_camera_def split: prod.splits)

lemma tick_adjust_frame:
  "tick_adjust C p = (r, p') \<Longrightarrow> vp_state p' = vp_state p \<and> vp_saves p' = vp_saves p"
  by (auto simp: tick_adjust_def dest!: bind_cases on_camera_frame split: if_splits)

lemma tick_get_frame_frame:
  "tick_get_frame C p = (r, p') \<Longrightarrow> vp_state p' = vp_state p \<and> vp_saves p' = vp_saves p"
  by (auto simp: tick_get_frame_def dest!: on_camera_frame split: prod.splits res.splits if_splits)

lemma tick_show_frame:
  "tick_show v p = (r, p') \<Longrightarrow> vp_state p' = vp_state p \<and> vp_saves p' = vp_saves p"
  by (auto simp: tick_show_def split: option.splits res.splits)

lemma save_frame_effect:
  "save_frame C ser fr stem fmt p = (r, p') \<Longrightarrow>
     vp_state p' = vp_state p
     \<and> (vp_saves p' = vp_saves p \<and> r \<noteq> Ret ()
        \<or> (\<exists>folder. vp_saves p' = vp_saves p @
              [\<lparr> sc_frame = fr, sc_save_folder = folder, sc_filename_stem = stem, sc_fmt = fmt \<rparr>]))"
  by (auto simp: save_frame_def Let_def dest!: bind_cases on_camera_frame split: option.splits)

lemma tick_record_idle:
  "\<not> recording (vp_state p) \<or> fs = None \<Longrightarrow> tick_record C ser fs p = (Ret (), p)"
  by (auto simp: tick_record_def split: option.splits)

lemma tick_record_flags:
  "tick_record C ser fs p = (r, p') \<Longrightarrow>
     running (vp_state p') = running (vp_state p)
     \<and> paused (vp_state p') = paused (vp_state p)
     \<and> recording (vp_state p') = recording (vp_state p)
     \<and> recording_format (vp_state p') = recording_format (vp_state p)
     \<and> estimating_exposure (vp_state p') = estimating_exposure (vp_state p)
     \<and> exposure_tries (vp_state p') = exposure_tries (vp_state p)"
  by (auto simp: tick_record_def dest!: bind_cases save_frame_effect split: option.splits if_splits)

lemma tick_record_saves:
  "tick_record C ser (Some fr) p = (Ret (), p') \<Longrightarrow> recording (vp_state p) \<Longrightarrow>
     (\<exists>folder. vp_saves p' = vp_saves p @
        [\<lparr> sc_frame = fr, sc_save_folder = folder,
           sc_filename_stem = ''frame_'' @ format_04d (frame_counter (vp_state p)),
           sc_fmt = recording_format (vp_state p) \<rparr>])
     \<and> frame_counter (vp_state p') = frame_counter (vp_state p) + 1"
  by (auto simp: tick_record_def dest!: bind_cases save_frame_effect)

lemma tick_check_effect:
  "tick_check C fs p = (r, p') \<Longrightarrow>
     vp_saves p' = vp_saves p
     \<and> running (vp_state p') = running (vp_state p)
     \<and> paused (vp_state p') = paused (vp_state p)
     \<and> recording (vp_state p') = recording (vp_state p)
     \<and> frame_counter (vp_state p') = frame_counter (vp_state p)"
  by (auto simp: tick_check_def Let_def dest!: bind_cases on_camera_frame split: if_splits)

lemma tick_check_estimation:
  "tick_check C fs p = (Ret (), p') \<Longrightarrow>
     (if estimating_exposure (vp_state p)
      then (estimating_exposure (vp_state p')
              \<and> exposure_tries (vp_state p') = exposure_tries (vp_state p) + 1
              \<and> exposure_tries (vp_state p) + 1 < 50)
           \<or> (\<not> estimating_exposure (vp_state p') \<and> exposure_tries (vp_state p') = 0)
      else vp_state p' = vp_state p)"
  by (auto simp: tick_check_def Let_def dest!: bind_cases on_camera_frame split: if_splits)

lemma update_frame_parts:
  assumes "running (vp_state p)" "\<not> paused (vp_state p)" "update_frame C ser p = (r, p')"
  shows "(\<exists>e p1. tick_adjust C p = (Raise e, p1) \<and> p' = p1 \<and> r = Raise e)
    \<or> (\<exists>p1 e p2. tick_adjust C p = (Ret (), p1) \<and> tick_get_frame C p1 = (Raise e, p2)
          \<and> p' = p2 \<and> r = Raise e)
    \<or> (\<exists>p1 fs fv p2 e p3. tick_adjust C p = (Ret (), p1)
          \<and> tick_get_frame C p1 = (Ret (fs, fv), p2) \<and> tick_show fv p2 = (Raise e, p3)
          \<and> p' = p3 \<and> r = Raise e)
    \<or> (\<exists>p1 fs fv p2 p3 e p4. tick_adjust C p = (Ret (), p1)
          \<and> tick_get_frame C p1 = (Ret (fs, fv), p2) \<and> tick_show fv p2 = (Ret (), p3)
          \<and> tick_record C ser fs p3 = (Raise e, p4) \<and> p' = p4 \<and> r = Raise e)
    \<or> (\<exists>p1 fs fv p2 p3 p4. tick_adjust C p = (Ret (), p1)
          \<and> tick_get_frame C p1 = (Ret (fs, fv), p2) \<and> tick_show fv p2 = (Ret (), p3)
          \<and> tick_record C ser fs p3 = (Ret (), p4) \<and> tick_check C fs p4 = (r, p'))"
  using assms
  by (auto simp: update_frame_def bind_def split: prod.splits res.splits)

subsection \<open>C3: the iteration ceiling of the exposure estimation\<close>

lemma update_frame_estimation:
  assumes "running (vp_state p)" "\<not> paused (vp_state p)" "update_frame C ser p = (Ret (), p')"
  shows "running (vp_state p') \<and> \<not> paused (vp_state p')
    \<and> (if estimating_exposure (vp_state p)
        then (estimating_exposure (vp_state p')
                \<and> exposure_tries (vp_state p') = exposure_tries (vp_state p) + 1
                \<and> exposure_tries (vp_state p) + 1 < 50)
             \<or> (\<not> estimating_exposure (vp_state p') \<and> exposure_tries (vp_state p') = 0)
        else \<not> estimating_exposure (vp_state p')
             \<and> exposure_tries (vp_state p') = exposure_tries (vp_state p))"
proof -
  from update_frame_parts [OF assms] obtain p1 fs fv p2 p3 p4 where
    a: "tick_adjust C p = (Ret (), p1)" and g: "tick_get_frame C p1 = (Ret (fs, fv), p2)"
    and s: "tick_show fv p2 = (Ret (), p3)" and r: "tick_record C ser fs p3 = (Ret (), p4)"
    and c: "tick_check C fs p4 = (Ret (), p')"
    by auto
  have eq: "vp_state p3 = vp_state p"
    using tick_adjust_frame [OF a] tick_get_frame_frame [OF g] tick_show_frame [OF s] by simp
  show ?thesis
    using assms(1,2) eq tick_record_flags [OF r] tick_check_effect [OF c]
      tick_check_estimation [OF c]
    by (auto split: if_splits)
qed

lemma ticks_estimation:
  "running (vp_state p) \<Longrightarrow> \<not> paused (vp_state p) \<Longrightarrow> ticks C ser n p = (Ret (), p') \<Longrightarrow>
   running (vp_state p') \<and> \<not> paused (vp_state p')
   \<and> (if estimating_exposure (vp_state p)
       then (estimating_exposure (vp_state p')
               \<and> exposure_tries (vp_state p') = exposure_tries (vp_state p) + int n
               \<and> (0 < n \<longrightarrow> exposure_tries (vp_state p) + int n < 50))
            \<or> (\<not> estimating_exposure (vp_state p') \<and> exposure_tries (vp_state p') = 0)
       else \<not> estimating_exposure (vp_state p')
            \<and> exposure_tries (vp_state p') = exposure_tries (vp_state p))"
proof (induction n arbitrary: p)
  case 0
  then show ?case by simp
next
  case (Suc n)
  from Suc.prems(3) obtain p1 where
    one: "update_frame C ser p = (Ret (), p1)" and rest: "ticks C ser n p1 = (Ret (), p')"
    by (auto dest!: bind_Ret)
  note st = update_frame_estimation [OF Suc.prems(1,2) one]
  from st have rp: "running (vp_state p1)" "\<not> paused (vp_state p1)" by simp_all
  note ih = Suc.IH [OF rp rest]
  show ?case
  proof (cases "estimating_exposure (vp_state p)")
    case False
    with st ih show ?thesis by simp
  next
    case True
    show ?thesis
    proof (cases "estimating_exposure (vp_state p1)")
      case False
      with st ih True show ?thesis by simp
    next
      case e1: True
      with st True have t1: "exposure_tries (vp_state p1) = exposure_tries (vp_state p) + 1"
        "exposure_tries (vp_state p) + 1 < 50" by auto
      from ih e1 t1 True show ?thesis by (cases n) auto
    qed
  qed
qed

lemma toggle_exposure_starts:
  assumes "running (vp_state p0)" "\<not> paused (vp_state p0)"
    "\<not> estimating_exposure (vp_state p0)" "toggle_exposure C p0 = (r, p)"
  shows "running (vp_state p) \<and> \<not> paused (vp_state p)
    \<and> estimating_exposure (vp_state p) \<and> exposure_tries (vp_state p) = 0"
  using assms
  by (auto simp: toggle_exposure_def Let_def dest!: on_camera_frame split: if_splits)

lemma estimation_ceiling:
  assumes "running (vp_state p0)" "\<not> paused (vp_state p0)"
    "\<not> estimating_exposure (vp_state p0)"
    "toggle_exposure C p0 = (r, p)" "ticks C ser n p = (Ret (), p')"
  shows "estimating_exposure (vp_state p) \<and> exposure_tries (vp_state p) = 0
    \<and> (50 \<le> n \<longrightarrow> \<not> estimating_exposure (vp_state p'))
    \<and> (\<not> estimating_exposure (vp_state p') \<longrightarrow> exposure_tries (vp_state p') = 0)
    \<and> (estimating_exposure (vp_state p') \<longrightarrow> exposure_tries (vp_state p') = int n)"
proof -
  note s = toggle_exposure_starts [OF assms(1-4)]
  from s have rp: "running (vp_state p)" "\<not> paused (vp_state p)" by simp_all
  from ticks_estimation [OF rp assms(5)] s show ?thesis
    by (cases "n = 0") auto
qed

lemma mock_image_shape: "arr_shape (mock_image c) = mock_shape c"
  by (simp add: mock_image_def Let_def)

lemma mock_image_length: "length (arr_data (mock_image c)) = mock_shape c ! 0 * mock_shape c ! 1"
  by (simp add: mock_image_def Let_def length_concat comp_def sum_list_triv sum_list_replicate)

lemmas mock_eval = update_frame_def bind_def tick_adjust_def tick_get_frame_def tick_show_def
  tick_record_def tick_check_def save_frame_def on_camera_def mock_variant_def
  MockCamera_methods_def mock_adjust_exposure_def mock_get_frame_def mock_save_folder_def
  numpy_to_pixmap_format_def mock_image_shape Let_def

lemma mock_variant_tick:
  assumes "length (mock_shape (vp_camera p)) = 2" "\<forall>k. ser k = None"
    "\<forall>f c. mock_shape (snd (chk f c)) = mock_shape c"
  shows "\<exists>p'. update_frame (mock_variant chk) ser p = (Ret (), p')
    \<and> mock_shape (vp_camera p') = mock_shape (vp_camera p)"
  using assms by (simp add: mock_eval split: option.splits)

lemma mock_variant_ticks:
  assumes "\<forall>k. ser k = None" "\<forall>f c. mock_shape (snd (chk f c)) = mock_shape c"
  shows "length (mock_shape (vp_camera p)) = 2 \<Longrightarrow>
    \<exists>p'. ticks (mock_variant chk) ser n p = (Ret (), p')"
proof (induction n arbitrary: p)
  case 0
  then show ?case by simp
next
  case (Suc n)
  from mock_variant_tick [OF Suc.prems assms] obtain p1 where
    one: "update_frame (mock_variant chk) ser p = (Ret (), p1)"
    and sh: "mock_shape (vp_camera p1) = mock_shape (vp_camera p)" by blast
  from Suc.IH [of p1] sh Suc.prems obtain p' where
    "ticks (mock_variant chk) ser n p1 = (Ret (), p')" by auto
  with one show ?case by (simp add: bind_def)
qed

lemma mock_variant_self: "mock_variant mock_check_exposure = MockCamera_methods"
  by (simp add: mock_variant_def MockCamera_methods_def)

lemma mock_ticks_return:
  assumes "\<forall>k. ser k = None" "length (mock_shape (vp_camera p)) = 2"
  shows "fst (ticks MockCamera_methods ser n p) = Ret ()"
proof -
  have "\<forall>f c. mock_shape (snd (mock_check_exposure f c)) = mock_shape c"
    by (simp add: mock_check_exposure_def Let_def)
  from mock_variant_ticks [OF assms(1) this assms(2), of n] show ?thesis
    by (auto simp: mock_variant_self)
qed

lemma tis_tick_returns:
  assumes "live_device (tis_grabber (vp_camera p)) (Suc n)" "\<forall>k. ser k = None"
  shows "\<exists>p'. update_frame TisCamera_methods ser p = (Ret (), p')
    \<and> live_device (tis_grabber (vp_camera p')) n"
proof -
  from assms(1) obtain fr rest where
    sn: "dev_snaps (tis_grabber (vp_camera p)) = Some fr # rest" and sh: "length (arr_shape fr) = 3"
    and acc: "dev_accepts (tis_grabber (vp_camera p)) = (\<lambda>v. True)"
    and rest: "n \<le> length rest"
      "list_all (\<lambda>x. case x of None \<Rightarrow> False | Some fr \<Rightarrow> length (arr_shape fr) = 3) rest"
    by (cases "dev_snaps (tis_grabber (vp_camera p))")
       (auto simp: live_device_def split: option.splits)
  show ?thesis
    using sn sh acc rest assms(2)
    by (simp add: live_device_def update_frame_def bind_def tick_adjust_def tick_get_frame_def
        tick_show_def tick_record_def tick_check_def save_frame_def on_camera_def
        TisCamera_methods_def tis_adjust_exposure_def tis_set_exposure_def tis_get_frame_def
        tis_exposure_def tis_check_exposure_def find_exposure_for_saturation_def
        tis_save_folder_meth_def numpy_to_pixmap_format_def Let_def
        split: option.splits)
qed

lemma tis_ticks_return:
  assumes "\<forall>k. ser k = None"
  shows "live_device (tis_grabber (vp_camera p)) n \<Longrightarrow>
    \<exists>p'. ticks TisCamera_methods ser n p = (Ret (), p')"
proof (induction n arbitrary: p)
  case 0
  then show ?case by simp
next
  case (Suc n)
  from tis_tick_returns [OF Suc.prems assms] obtain p1 where
    one: "update_frame TisCamera_methods ser p = (Ret (), p1)"
    and live: "live_device (tis_grabber (vp_camera p1)) n" by blast
  from Suc.IH [OF live] obtain p' where "ticks TisCamera_methods ser n p1 = (Ret (), p')" by blast
  with one show ?case by (simp add: bind_def)
qed

text \<open>
  C3: once \<open>toggle_exposure\<close> has started an estimation on a running, unpaused
  player (\<open>estimating_exposure\<close> true, \<open>exposure_tries\<close> 0), then for every
  backend, whatever frames it delivers and whatever \<open>check_exposure\<close> answers,
  after 50 ticks or more \<open>estimating_exposure\<close> is false; whenever it is false
  \<open>exposure_tries\<close> is 0 again, and while it is still true \<open>exposure_tries\<close>
  counts the ticks. Ticks are calls of \<open>update_frame\<close> that return; and they all
  return on the mock camera and on a TIS camera whose device delivers a frame at
  every snap and accepts every exposure value, when the serializer does not raise.
\<close>

theorem C3_estimation_ceiling:
  "(running (vp_state p0) \<and> \<not> paused (vp_state p0) \<and> \<not> estimating_exposure (vp_state p0)
      \<and> toggle_exposure C p0 = (r, p) \<and> ticks C ser n p = (Ret (), p') \<longrightarrow>
      estimating_exposure (vp_state p) \<and> exposure_tries (vp_state p) = 0
      \<and> (50 \<le> n \<longrightarrow> \<not> estimating_exposure (vp_state p'))
      \<and> (\<not> estimating_exposure (vp_state p') \<longrightarrow> exposure_tries (vp_state p') = 0)
      \<and> (estimating_exposure (vp_state p') \<longrightarrow> exposure_tries (vp_state p') = int n))
   \<and> ((\<forall>k. ser k = None) \<and> length (mock_shape (vp_camera m)) = 2 \<longrightarrow>
        fst (ticks MockCamera_methods ser n m) = Ret ())
   \<and> ((\<forall>k. ser k = None) \<and> live_device (tis_grabber (vp_camera t)) n \<longrightarrow>
        fst (ticks TisCamera_methods ser n t) = Ret ())"
proof (intro conjI impI)
  assume a: "running (vp_state p0) \<and> \<not> paused (vp_state p0)
      \<and> \<not> estimating_exposure (vp_state p0)
      \<and> toggle_exposure C p0 = (r, p) \<and> ticks C ser n p = (Ret (), p')"
  then have c: "estimating_exposure (vp_state p) \<and> exposure_tries (vp_state p) = 0
    \<and> (50 \<le> n \<longrightarrow> \<not> estimating_exposure (vp_state p'))
    \<and> (\<not> estimating_exposure (vp_state p') \<longrightarrow> exposure_tries (vp_state p') = 0)
    \<and> (estimating_exposure (vp_state p') \<longrightarrow> exposure_tries (vp_state p') = int n)"
    using estimation_ceiling [of p0 C r p ser n p'] by blast
  from c show "estimating_exposure (vp_state p)" by blast
  from c show "exposure_tries (vp_state p) = 0" by blast
  from c show "\<not> estimating_exposure (vp_state p')" if "50 \<le> n" using that by blast
  from c show "exposure_tries (vp_state p') = 0" if "\<not> estimating_exposure (vp_state p')"
    using that by blast
  from c show "exposure_tries (vp_state p') = int n" if "estimating_exposure (vp_state p')"
    using that by blast
next
  assume "(\<forall>k. ser k = None) \<and> length (mock_shape (vp_camera m)) = 2"
  then show "fst (ticks MockCamera_methods ser n m) = Ret ()"
    using mock_ticks_return by blast
next
  assume "(\<forall>k. ser k = None) \<and> live_device (tis_grabber (vp_camera t)) n"
  then show "fst (ticks TisCamera_methods ser n t) = Ret ()"
    using tis_ticks_return [of ser t n] by auto
qed

theorem C3_estimation_ceiling_witness:
  "fst (ticks (mock_variant never_converged) (\<lambda>k. None) 50
          (snd (toggle_exposure (mock_variant never_converged) mock_running_player))) = Ret ()
   \<and> \<not> estimating_exposure (vp_state (snd (ticks (mock_variant never_converged) (\<lambda>k. None) 50
          (snd (toggle_exposure (mock_variant never_converged) mock_running_player)))))
   \<and> exposure_tries (vp_state (snd (ticks (mock_variant never_converged) (\<lambda>k. None) 50
          (snd (toggle_exposure (mock_variant never_converged) mock_running_player))))) = 0
   \<and> fst (ticks MockCamera_methods (\<lambda>k. None) 50 mock_running_player) = Ret ()
   \<and> fst (ticks TisCamera_methods (\<lambda>k. None) 50 tis_live_player) = Ret ()"
proof -
  let ?C = "mock_variant never_converged"
  let ?p = "snd (toggle_exposure ?C mock_running_player)"
  have sh: "length (mock_shape (vp_camera ?p)) = 2"
    by (simp add: toggle_exposure_def mock_running_player_def player_of_def GuiState_init_def
        on_camera_def mock_variant_def MockCamera_methods_def mock_init_exposure_def
        MockCamera_init_def Let_def)
  from mock_variant_ticks [of "\<lambda>k. None" never_converged ?p 50, OF _ _ sh]
  obtain p' where run: "ticks ?C (\<lambda>k. None) 50 ?p = (Ret (), p')"
    by (auto simp: never_converged_def)
  have st: "running (vp_state mock_running_player)" "\<not> paused (vp_state mock_running_player)"
    "\<not> estimating_exposure (vp_state mock_running_player)"
    by (simp_all add: mock_running_player_def player_of_def GuiState_init_def)
  have tg: "toggle_exposure ?C mock_running_player
      = (fst (toggle_exposure ?C mock_running_player), ?p)" by simp
  have m: "length (mock_shape (vp_camera mock_running_player)) = 2"
    by (simp add: mock_running_player_def player_of_def MockCamera_init_def)
  have t: "live_device (tis_grabber (vp_camera tis_live_player)) 50"
    by (simp add: live_device_def tis_live_player_def player_of_def TisCamera_init_def
        live_example_device_def dark_frame_def list_all_iff)
  from C3_estimation_ceiling [of mock_running_player ?C
      "fst (toggle_exposure ?C mock_running_player)" ?p "\<lambda>k. None" 50 p'
      mock_running_player tis_live_player]
    st tg run m t
  show ?thesis by simp
qed

subsection \<open>C6: recording\<close>

declare decimal.simps [simp del]

lemma decimal_1: "m < 10 \<Longrightarrow> decimal m = [digit m]"
  by (subst decimal.simps) simp

lemma decimal_2: "10 \<le> m \<Longrightarrow> m < 100 \<Longrightarrow> decimal m = [digit (m div 10), digit (m mod 10)]"
  by (subst decimal.simps) (simp add: decimal_1)

lemma div_10_10: "(m::nat) div 10 div 10 = m div 100" "m div 10 div 100 = m div 1000"
  by (simp_all add: div_mult2_eq [symmetric])

lemma decimal_3: "100 \<le> m \<Longrightarrow> m < 1000 \<Longrightarrow>
    decimal m = [digit (m div 100), digit (m div 10 mod 10), digit (m mod 10)]"
  by (subst decimal.simps) (simp add: decimal_2 div_10_10)

lemma decimal_4: "1000 \<le> m \<Longrightarrow> m < 10000 \<Longrightarrow>
    decimal m = [digit (m div 1000), digit (m div 100 mod 10), digit (m div 10 mod 10),
                 digit (m mod 10)]"
  by (subst decimal.simps) (simp add: decimal_3 div_10_10)

lemma zfill_decimal:
  assumes "k < 10000"
  shows "zfill 4 (decimal k) =
     [digit (k div 1000), digit (k div 100 mod 10), digit (k div 10 mod 10), digit (k mod 10)]"
proof -
  have z: "digit 0 = CHR ''0''" by (simp add: digit_def)
  have r: "replicate 3 c = [c, c, c]" "replicate 2 c = [c, c]" for c :: char
    by (simp_all add: numeral_3_eq_3 numeral_2_eq_2)
  consider "k < 10" | "10 \<le> k" "k < 100" | "100 \<le> k" "k < 1000" | "1000 \<le> k" "k < 10000"
    using assms by linarith
  then show ?thesis
  proof cases
    case 1 then show ?thesis by (simp add: zfill_def z r decimal_1)
  next
    case 2 then show ?thesis by (simp add: zfill_def z r decimal_2)
  next
    case 3 then show ?thesis by (simp add: zfill_def z r decimal_3)
  next
    case 4 then show ?thesis by (simp add: zfill_def decimal_4)
  qed
qed

lemma format_04d_digits:
  assumes "0 \<le> n" "n < 10000"
  shows "format_04d n =
     [digit (nat (n div 1000)), digit (nat (n div 100 mod 10)),
      digit (nat (n div 10 mod 10)), digit (nat (n mod 10))]"
proof -
  have "nat n < 10000" using assms by simp
  from zfill_decimal [OF this] assms show ?thesis
    by (simp add: format_04d_def nat_div_distrib nat_mod_distrib)
qed

lemma format_04d_examples:
  "format_04d 0 = ''0000''" "format_04d 1 = ''0001''" "format_04d 2 = ''0002''"
  "format_04d 3 = ''0003''" "format_04d 4 = ''0004''"
  by (simp_all add: format_04d_digits digit_def)

lemma ticks_numeral:
  "ticks C ser (numeral k) p = bind (update_frame C ser) (\<lambda>_. ticks C ser (pred_numeral k)) p"
  by (simp add: numeral_eq_Suc)

lemma toggle_recording_starts:
  assumes "running (vp_state p)" "\<not> paused (vp_state p)" "\<not> recording (vp_state p)"
  shows "recording (vp_state (snd (toggle_recording C ts p)))
    \<and> frame_counter (vp_state (snd (toggle_recording C ts p))) = 0"
  using assms by (simp add: toggle_recording_def Let_def on_camera_def split: prod.splits)

lemma recorded_tick:
  assumes "running (vp_state p)" "\<not> paused (vp_state p)" "recording (vp_state p)"
    "update_frame C ser p = (Ret (), p')"
  shows "case fst (tick_get_frame C (snd (tick_adjust C p))) of
         Ret (Some fr, fv) \<Rightarrow>
           (\<exists>folder. vp_saves p' = vp_saves p @
              [\<lparr> sc_frame = fr, sc_save_folder = folder,
                 sc_filename_stem = ''frame_'' @ format_04d (frame_counter (vp_state p)),
                 sc_fmt = recording_format (vp_state p) \<rparr>])
           \<and> frame_counter (vp_state p') = frame_counter (vp_state p) + 1
       | _ \<Rightarrow> vp_saves p' = vp_saves p
           \<and> frame_counter (vp_state p') = frame_counter (vp_state p)"
proof -
  from update_frame_parts [OF assms(1,2,4)] obtain p1 fs fv p2 p3 p4 where
    a: "tick_adjust C p = (Ret (), p1)" and g: "tick_get_frame C p1 = (Ret (fs, fv), p2)"
    and s: "tick_show fv p2 = (Ret (), p3)" and r: "tick_record C ser fs p3 = (Ret (), p4)"
    and c: "tick_check C fs p4 = (Ret (), p')"
    by auto
  have eq: "vp_state p3 = vp_state p" "vp_saves p3 = vp_saves p"
    using tick_adjust_frame [OF a] tick_get_frame_frame [OF g] tick_show_frame [OF s]
    by simp_all
  show ?thesis
  proof (cases fs)
    case None
    with r tick_record_idle [of p3 fs C ser] have "p4 = p3" by simp
    with None a g eq tick_check_effect [OF c] show ?thesis by simp
  next
    case (Some fr)
    with r have r': "tick_record C ser (Some fr) p3 = (Ret (), p4)" by simp
    from tick_record_saves [OF r'] assms(3) eq tick_check_effect [OF c] Some a g
    show ?thesis by auto
  qed
qed

lemma idle_tick_saves:
  assumes "\<not> recording (vp_state p)"
  shows "vp_saves (snd (update_frame C ser p)) = vp_saves p"
proof (cases "running (vp_state p) \<and> \<not> paused (vp_state p)")
  case False
  then show ?thesis by (auto simp: update_frame_def)
next
  case True
  obtain r p' where u: "update_frame C ser p = (r, p')" by (cases "update_frame C ser p")
  from True have rp: "running (vp_state p)" "\<not> paused (vp_state p)" by simp_all
  from update_frame_parts [OF rp u] have "vp_saves p' = vp_saves p"
  proof (elim disjE exE conjE)
    fix e p1 assume "tick_adjust C p = (Raise e, p1)" "p' = p1"
    then show ?thesis using tick_adjust_frame by blast
  next
    fix p1 e p2 assume "tick_adjust C p = (Ret (), p1)" "tick_get_frame C p1 = (Raise e, p2)"
      "p' = p2"
    then show ?thesis using tick_adjust_frame tick_get_frame_frame by metis
  next
    fix p1 fs fv p2 e p3 assume "tick_adjust C p = (Ret (), p1)"
      "tick_get_frame C p1 = (Ret (fs, fv), p2)" "tick_show fv p2 = (Raise e, p3)" "p' = p3"
    then show ?thesis using tick_adjust_frame tick_get_frame_frame tick_show_frame by metis
  next
    fix p1 fs fv p2 p3 e p4 assume a: "tick_adjust C p = (Ret (), p1)"
      "tick_get_frame C p1 = (Ret (fs, fv), p2)" "tick_show fv p2 = (Ret (), p3)"
      and r: "tick_record C ser fs p3 = (Raise e, p4)" and "p' = p4"
    from a have "vp_state p3 = vp_state p"
      using tick_adjust_frame tick_get_frame_frame tick_show_frame by metis
    with assms r tick_record_idle [of p3 fs C ser] show ?thesis by simp
  next
    fix p1 fs fv p2 p3 p4 assume a: "tick_adjust C p = (Ret (), p1)"
      "tick_get_frame C p1 = (Ret (fs, fv), p2)" "tick_show fv p2 = (Ret (), p3)"
      and r: "tick_record C ser fs p3 = (Ret (), p4)" and c: "tick_check C fs p4 = (r, p')"
    from a have eq: "vp_state p3 = vp_state p" "vp_saves p3 = vp_saves p"
      using tick_adjust_frame tick_get_frame_frame tick_show_frame by metis+
    with assms r tick_record_idle [of p3 fs C ser] have "p4 = p3" by simp
    with eq tick_check_effect [OF c] show ?thesis by simp
  qed
  with u show ?thesis by simp
qed

lemmas scenario_eval = mock_recording_player_def mock_running_player_def toggle_recording_def
  player_of_def GuiState_init_def MockCamera_init_def mock_set_save_subfolder_def
  update_frame_def bind_def tick_adjust_def tick_get_frame_def tick_show_def
  tick_record_def tick_check_def save_frame_def on_camera_def
  MockCamera_methods_def mock_get_frame_def mock_save_folder_def mock_exception_type_def
  numpy_to_pixmap_format_def mock_image_shape mock_image_length Let_def
  ticks_numeral format_04d_examples path_div_def

lemma scenario:
  "fst (ticks MockCamera_methods (\<lambda>k. None) 5 mock_recording_player) = Ret ()"
  "map sc_filename_stem (vp_saves (snd (ticks MockCamera_methods (\<lambda>k. None) 5
          mock_recording_player)))
       = [''frame_0000'', ''frame_0001'', ''frame_0002'', ''frame_0003'', ''frame_0004'']"
  "map (\<lambda>k. arr_shape (sc_frame k)) (vp_saves (snd (ticks MockCamera_methods (\<lambda>k. None) 5
          mock_recording_player)))
       = [[480, 640], [480, 640], [480, 640], [480, 640], [480, 640]]"
  "map (\<lambda>k. length (arr_data (sc_frame k))) (vp_saves (snd (ticks MockCamera_methods
          (\<lambda>k. None) 5 mock_recording_player)))
       = [480 * 640, 480 * 640, 480 * 640, 480 * 640, 480 * 640]"
  "frame_counter (vp_state (snd (ticks MockCamera_methods (\<lambda>k. None) 5
          mock_recording_player))) = 5"
  by (simp_all add: scenario_eval)

text \<open>
  C6: \<open>toggle_recording\<close> on a running, unpaused player that is not recording
  turns recording on and sets \<open>frame_counter\<close> to 0. A tick of a recording player
  that returns and in which \<open>get_frame\<close> delivered a raw frame has made exactly
  one save call, of that frame, with the stem \<open>frame_\<close> followed by the counter
  in the format \<open>04d\<close> (four decimal digits, zero-padded, for counters below
  10000), and has incremented the counter by 1; without a frame it has made none.
  A tick of a player that is not recording makes no save call, however it ends.
  Five ticks of the mock player after \<open>toggle_recording\<close> all return and make
  the five save calls \<open>frame_0000\<close> to \<open>frame_0004\<close>, each with a frame of
  shape 480 x 640 and of 480 * 640 samples.
\<close>

theorem C6_recording:
  "(running (vp_state p) \<and> \<not> paused (vp_state p) \<and> \<not> recording (vp_state p) \<longrightarrow>
      recording (vp_state (snd (toggle_recording C ts p)))
      \<and> frame_counter (vp_state (snd (toggle_recording C ts p))) = 0)
   \<and> (running (vp_state p) \<and> \<not> paused (vp_state p) \<and> recording (vp_state p)
        \<and> update_frame C ser p = (Ret (), p') \<longrightarrow>
      (case fst (tick_get_frame C (snd (tick_adjust C p))) of
         Ret (Some fr, fv) \<Rightarrow>
           (\<exists>folder. vp_saves p' = vp_saves p @
              [\<lparr> sc_frame = fr, sc_save_folder = folder,
                 sc_filename_stem = ''frame_'' @ format_04d (frame_counter (vp_state p)),
                 sc_fmt = recording_format (vp_state p) \<rparr>])
           \<and> frame_counter (vp_state p') = frame_counter (vp_state p) + 1
       | _ \<Rightarrow> vp_saves p' = vp_saves p
           \<and> frame_counter (vp_state p') = frame_counter (vp_state p)))
   \<and> (\<not> recording (vp_state p) \<longrightarrow> vp_saves (snd (update_frame C ser p)) = vp_saves p)
   \<and> (0 \<le> n \<and> n < 10000 \<longrightarrow>
        format_04d n = [digit (nat (n div 1000)), digit (nat (n div 100 mod 10)),
                        digit (nat (n div 10 mod 10)), digit (nat (n mod 10))])
   \<and> fst (ticks MockCamera_methods (\<lambda>k. None) 5 mock_recording_player) = Ret ()
   \<and> map sc_filename_stem (vp_saves (snd (ticks MockCamera_methods (\<lambda>k. None) 5
          mock_recording_player)))
       = [''frame_0000'', ''frame_0001'', ''frame_0002'', ''frame_0003'', ''frame_0004'']
   \<and> map (\<lambda>k. arr_shape (sc_frame k)) (vp_saves (snd (ticks MockCamera_methods (\<lambda>k. None) 5
          mock_recording_player)))
       = [[480, 640], [480, 640], [480, 640], [480, 640], [480, 640]]
   \<and> map (\<lambda>k. length (arr_data (sc_frame k))) (vp_saves (snd (ticks MockCamera_methods
          (\<lambda>k. None) 5 mock_recording_player)))
       = [480 * 640, 480 * 640, 480 * 640, 480 * 640, 480 * 640]"
  using toggle_recording_starts [of p C ts] recorded_tick [of p C ser p']
    idle_tick_saves [of p C ser] format_04d_digits [of n] scenario(1-4)
  by (intro conjI impI) blast+

theorem C6_recording_witness:
  "recording (vp_state mock_recording_player)
   \<and> frame_counter (vp_state mock_recording_player) = 0
   \<and> fst (update_frame MockCamera_methods (\<lambda>k. None) mock_recording_player) = Ret ()
   \<and> map sc_filename_stem
        (vp_saves (snd (update_frame MockCamera_methods (\<lambda>k. None) mock_recording_player)))
       = [''frame_0000'']
   \<and> frame_counter
        (vp_state (snd (update_frame MockCamera_methods (\<lambda>k. None) mock_recording_player))) = 1
   \<and> vp_saves (snd (update_frame MockCamera_methods (\<lambda>k. None) mock_running_player)) = []
   \<and> format_04d 4 = ''0004''"
  using C6_recording [of mock_running_player MockCamera_methods "''20250101_120000''"
      "\<lambda>k. None" mock_running_player 4]
    C6_recording [of mock_recording_player MockCamera_methods "''20250101_120000''"
      "\<lambda>k. None"
      "snd (update_frame MockCamera_methods (\<lambda>k. None) mock_recording_player)" 4]
  by (simp add: scenario_eval digit_def)

end
